theory Spec2Isabelle
  imports Main "HOL-Library.List_Lexorder" "HOL-Library.Char_ord" "HOL-Library.Word"
begin

section \<open>Strings and number formatting\<close>

text \<open>
  Go strings are byte sequences and compare bytewise, a proper prefix being smaller.
  That is the order of \<^typ>\<open>string\<close> given by the lexicographic order on lists over
  the byte order on characters, which the two library theories imported above provide.
\<close>

text \<open>The character of a digit below 16: \<^verbatim>\<open>0\<close> to \<^verbatim>\<open>9\<close>, then \<^verbatim>\<open>a\<close> to \<^verbatim>\<open>f\<close>.\<close>

definition digit_char :: "nat \<Rightarrow> char" where
  "digit_char d = (if d < 10 then char_of (48 + d) else char_of (87 + d))"

text \<open>The digits of a natural number in a base between 2 and 16, most significant first.\<close>

function digits_of :: "nat \<Rightarrow> nat \<Rightarrow> string" where
  "digits_of b n =
     (if b < 2 \<or> n < b then [digit_char n] else digits_of b (n div b) @ [digit_char (n mod b)])"
  by pat_completeness auto
termination
  by (relation "measure (\<lambda>(b, n). n)") auto

definition pad_zero :: "nat \<Rightarrow> string \<Rightarrow> string" where
  "pad_zero w s = replicate (w - length s) CHR ''0'' @ s"

text \<open>\<^verbatim>\<open>fmt.Sprintf("%d", v)\<close>.\<close>

definition fmt_d :: "int \<Rightarrow> string" where
  "fmt_d v = (if v < 0 then CHR ''-'' # digits_of 10 (nat (- v)) else digits_of 10 (nat v))"

text \<open>
  \<^verbatim>\<open>fmt.Sprintf("%02x", v)\<close>: lowercase hexadecimal, zero-padded to width two; the
  sign of a negative value takes one of the two columns.
\<close>

definition fmt_02x :: "int \<Rightarrow> string" where
  "fmt_02x v =
     (if v < 0 then CHR ''-'' # pad_zero 1 (digits_of 16 (nat (- v)))
      else pad_zero 2 (digits_of 16 (nat v)))"

section \<open>Package segment\<close>

record Segment =
  Index :: int
  StartHex :: string
  EndHex :: string

definition intToHex :: "int \<Rightarrow> string" where
  "intToHex val = (if val \<ge> 256 then ''100'' else fmt_02x val)"

text \<open>
  The loop of \<^verbatim>\<open>SegmentHashSpace\<close>: \<^verbatim>\<open>for i := 0; i < segments; i++\<close>, with the
  running \<^verbatim>\<open>start\<close> and the slice \<^verbatim>\<open>segs\<close> that is written by index.
\<close>

function segment_loop :: "int \<Rightarrow> int \<Rightarrow> int \<Rightarrow> int \<Rightarrow> int \<Rightarrow> Segment list \<Rightarrow> Segment list" where
  "segment_loop segments segmentSize remainder i start segs =
     (if i < segments then
        let size = (if i < remainder then segmentSize + 1 else segmentSize);
            end0 = start + size;
            end1 = (if end0 > 256 then 256 else end0)
        in segment_loop segments segmentSize remainder (i + 1) end1
             (segs[nat i := \<lparr>Index = i, StartHex = intToHex start, EndHex = intToHex end1\<rparr>])
      else segs)"
  by pat_completeness auto
termination
  by (relation "measure (\<lambda>(segments, segmentSize, remainder, i, start, segs). nat (segments - i))") auto

declare segment_loop.simps [simp del]

definition SegmentHashSpace :: "int \<Rightarrow> string + Segment list" where
  "SegmentHashSpace segments =
     (if segments \<le> 0 then Inl (''segments must be positive, got '' @ fmt_d segments)
      else if segments > 256 then Inl (''segments cannot exceed 256, got '' @ fmt_d segments)
      else
        let segs0 = replicate (nat segments) \<lparr>Index = 0, StartHex = '''', EndHex = ''''\<rparr>;
            segs = segment_loop segments (256 div segments) (256 mod segments) 0 0 segs0
        in if length segs > 0 then
             let lastIdx = length segs - 1
             in if EndHex (segs ! lastIdx) = ''ff''
                then Inr (segs[lastIdx := (segs ! lastIdx)\<lparr>EndHex := ''100''\<rparr>])
                else Inr segs
           else Inr segs)"

definition SegmentToHexRange :: "int \<Rightarrow> int \<Rightarrow> string + (string \<times> string)" where
  "SegmentToHexRange segmentIndex totalSegments =
     (if segmentIndex < 0 \<or> segmentIndex \<ge> totalSegments then
        Inl (''segment index '' @ fmt_d segmentIndex @ '' out of range [0, '' @
             fmt_d totalSegments @ '')'')
      else case SegmentHashSpace totalSegments of
        Inl e \<Rightarrow> Inl e
      | Inr segs \<Rightarrow>
          if segmentIndex \<ge> int (length segs) then
            Inl (''segment index '' @ fmt_d segmentIndex @ '' out of range'')
          else Inr (StartHex (segs ! nat segmentIndex), EndHex (segs ! nat segmentIndex)))"

definition HashInSegment :: "string \<Rightarrow> Segment \<Rightarrow> bool" where
  "HashInSegment hash seg =
     (if length hash < 2 then False
      else let hashPrefix = take 2 hash
           in hashPrefix \<ge> StartHex seg \<and> hashPrefix < EndHex seg)"

text \<open>
  \<^verbatim>\<open>HexToInt\<close> parses with \<^verbatim>\<open>big.Int.SetString(hexStr, 16)\<close>: an optional sign, then
  one or more hexadecimal digits of either case and nothing else; the value is then
  narrowed by \<^verbatim>\<open>int(val.Int64())\<close>, which keeps the low 64 bits.
\<close>

definition hex_value :: "char \<Rightarrow> nat option" where
  "hex_value c =
     (let k = (of_char c :: nat)
      in if 48 \<le> k \<and> k \<le> 57 then Some (k - 48)
         else if 97 \<le> k \<and> k \<le> 102 then Some (k - 87)
         else if 65 \<le> k \<and> k \<le> 70 then Some (k - 55)
         else None)"

fun scan_hex :: "nat \<Rightarrow> string \<Rightarrow> nat option" where
  "scan_hex acc [] = Some acc"
| "scan_hex acc (c # cs) =
     (case hex_value c of None \<Rightarrow> None | Some d \<Rightarrow> scan_hex (16 * acc + d) cs)"

definition SetString16 :: "string \<Rightarrow> int option" where
  "SetString16 s =
     (case s of
        [] \<Rightarrow> None
      | c # cs \<Rightarrow>
          if c = CHR ''-'' then
            (if cs = [] then None else map_option (\<lambda>n. - int n) (scan_hex 0 cs))
          else if c = CHR ''+'' then
            (if cs = [] then None else map_option int (scan_hex 0 cs))
          else map_option int (scan_hex 0 s))"

definition HexToInt :: "string \<Rightarrow> string + int" where
  "HexToInt hexStr =
     (case SetString16 hexStr of
        None \<Rightarrow> Inl (''invalid hex string: '' @ hexStr)
      | Some v \<Rightarrow> Inr (sint (word_of_int v :: 64 word)))"

text \<open>Closed forms used in the proofs: where segment \<open>i\<close> of \<open>n\<close> starts, and the segment itself.\<close>

definition seg_start :: "int \<Rightarrow> int \<Rightarrow> int" where
  "seg_start n i = i * (256 div n) + min i (256 mod n)"

definition seg_at :: "int \<Rightarrow> nat \<Rightarrow> Segment" where
  "seg_at n j = \<lparr>Index = int j, StartHex = intToHex (seg_start n (int j)),
                 EndHex = intToHex (seg_start n (int j + 1))\<rparr>"

text \<open>
  Membership as the data model words it: the end boundary is exclusive, except that the
  sentinel \<^verbatim>\<open>100\<close> of the last segment stands for "up to and including prefix
  \<^verbatim>\<open>ff\<close>". A second definition, to be compared with \<^verbatim>\<open>HashInSegment\<close>.
\<close>

definition spec_member :: "string \<Rightarrow> string \<Rightarrow> string \<Rightarrow> bool" where
  "spec_member key startKey endKey =
     (length key \<ge> 2 \<and>
      (let p = take 2 key
       in p \<ge> startKey \<and> (if endKey = ''100'' then p \<le> ''ff'' else p < endKey)))"

section \<open>Package exporter: rows and their serialisation\<close>

text \<open>
  A \<^verbatim>\<open>time.Time\<close> as the civil date and time it shows in its own location; the only
  thing the exporter does with it is to format it with layout
  \<^verbatim>\<open>2006-01-02 15:04:05\<close> (years 0 to 9999, which covers SQL timestamps).
\<close>

record GoTime =
  year :: nat
  month :: nat
  day :: nat
  hour :: nat
  minute :: nat
  second :: nat

record Row =
  TenantID :: int
  Hash :: string
  Aggr :: string
  LastModified :: "GoTime option"
  Version :: "int option"

definition formatTimestamp :: "GoTime option \<Rightarrow> string" where
  "formatTimestamp t =
     (case t of
        None \<Rightarrow> ''''
      | Some v \<Rightarrow>
          pad_zero 4 (digits_of 10 (year v)) @ ''-'' @ pad_zero 2 (digits_of 10 (month v)) @ ''-'' @
          pad_zero 2 (digits_of 10 (day v)) @ '' '' @ pad_zero 2 (digits_of 10 (hour v)) @ '':'' @
          pad_zero 2 (digits_of 10 (minute v)) @ '':'' @ pad_zero 2 (digits_of 10 (second v)))"

definition formatInt :: "int option \<Rightarrow> string" where
  "formatInt i = (case i of None \<Rightarrow> '''' | Some v \<Rightarrow> fmt_d v)"

text \<open>
  \<^verbatim>\<open>encoding/csv\<close>, as \<^verbatim>\<open>csv.NewWriter\<close> configures it (comma, no CRLF). A field is
  quoted when it is \<^verbatim>\<open>\.\<close>, contains a comma, a quote, a carriage return or a line
  feed, or starts with a space character (\<^verbatim>\<open>unicode.IsSpace\<close> of the first rune, given
  here by the UTF-8 bytes of the space characters). Inside quotes a quote is doubled.
  A record ends with a line feed.
\<close>

definition space_prefixes :: "string list" where
  "space_prefixes =
     [[CHR 0x09], [CHR 0x0A], [CHR 0x0B], [CHR 0x0C], [CHR 0x0D], [CHR 0x20],
      [CHR 0xC2, CHR 0x85], [CHR 0xC2, CHR 0xA0], [CHR 0xE1, CHR 0x9A, CHR 0x80]] @
     map (\<lambda>k. [CHR 0xE2, CHR 0x80, char_of (128 + k)]) [0..<(11::nat)] @
     [[CHR 0xE2, CHR 0x80, CHR 0xA8], [CHR 0xE2, CHR 0x80, CHR 0xA9], [CHR 0xE2, CHR 0x80, CHR 0xAF],
      [CHR 0xE2, CHR 0x81, CHR 0x9F], [CHR 0xE3, CHR 0x80, CHR 0x80]]"

definition starts_with :: "string \<Rightarrow> string \<Rightarrow> bool" where
  "starts_with s p = (take (length p) s = p)"

definition fieldNeedsQuotes :: "string \<Rightarrow> bool" where
  "fieldNeedsQuotes field =
     (if field = '''' then False
      else if field = [CHR 0x5C, CHR ''.''] then True
      else if \<exists>c \<in> set field. c = CHR 0x0A \<or> c = CHR 0x0D \<or>
                c = CHR 0x22 \<or> c = CHR '',''
      then True
      else \<exists>p \<in> set space_prefixes. starts_with field p)"

fun quote_body :: "string \<Rightarrow> string" where
  "quote_body [] = []"
| "quote_body (c # cs) =
     (if c = CHR 0x22 then CHR 0x22 # CHR 0x22 # quote_body cs
      else c # quote_body cs)"

definition csv_field :: "string \<Rightarrow> string" where
  "csv_field field =
     (if \<not> fieldNeedsQuotes field then field
      else CHR 0x22 # quote_body field @ [CHR 0x22])"

fun csv_fields :: "string list \<Rightarrow> string" where
  "csv_fields [] = []"
| "csv_fields [f] = csv_field f"
| "csv_fields (f # fs) = csv_field f @ '','' @ csv_fields fs"

definition csv_record :: "string list \<Rightarrow> string" where
  "csv_record record = csv_fields record @ [CHR 0x0A]"

definition csv_header :: "string list" where
  "csv_header = [''tenantid'', ''hash'', ''aggr'', ''last_modified'', ''version'']"

definition row_record :: "Row \<Rightarrow> string list" where
  "row_record row =
     [fmt_d (TenantID row), Hash row, Aggr row, formatTimestamp (LastModified row),
      formatInt (Version row)]"

text \<open>
  \<^verbatim>\<open>rowsToCSVBytes\<close>. The writer sits on an in-memory buffer and its delimiter is
  valid, so none of its three error returns can be taken; the model returns the bytes.
\<close>

definition rowsToCSVBytes :: "Row list \<Rightarrow> bool \<Rightarrow> string" where
  "rowsToCSVBytes rows includeHeader =
     (if includeHeader then csv_record csv_header else '''') @
     concat (map (\<lambda>row. csv_record (row_record row)) rows)"

section \<open>Configuration\<close>

text \<open>The fields of \<^verbatim>\<open>config.Config\<close> that the exporter, the uploader and the scheduler read.\<close>

record Config =
  ConfigTenantID :: int
  TableName :: string
  MariaDBDatabase :: string
  BatchSize :: int
  S3Prefix :: string
  S3Bucket :: string
  MaxParallelSegs :: int

section \<open>The database, as the exporter sees it\<close>

text \<open>
  A transaction at REPEATABLE READ sees one snapshot of the table for all its queries.
  Failures of the server or the driver are an input of the model: \<open>tx_faults k\<close> says
  whether the \<open>k\<close>-th query of the transaction fails, and at which of the three places
  where \<^verbatim>\<open>querySegmentInTx\<close> checks an error.
\<close>

datatype query_fault = QueryFailed string | ScanFailed string | IterFailed string

record Tx =
  tx_rows :: "Row list"
  tx_faults :: "nat \<Rightarrow> query_fault option"
  tx_issued :: nat

datatype sql_arg = ArgInt int | ArgStr string

text \<open>
  The statement is \<^verbatim>\<open>SELECT ... FROM t WHERE tenantid = ? AND <hashCondition> ORDER BY hash LIMIT ?\<close>.
  Its hash condition is one of four texts, conjunctions of the atoms below; the server
  binds the placeholders to the arguments from left to right, compares strings bytewise,
  orders the rows by \<^verbatim>\<open>hash\<close> and keeps the first \<^verbatim>\<open>LIMIT\<close> of them. A text it
  does not know, arguments that do not fit or a negative limit are an error.
\<close>

datatype hash_atom = HashGtParam | HashGeParam | HashLtParam | HashLeFF

definition parse_hash_condition :: "string \<Rightarrow> hash_atom list option" where
  "parse_hash_condition s =
     (if s = ''hash > ? AND hash >= ? AND hash <= '' @ [CHR 0x27] @ ''ff'' @ [CHR 0x27]
        then Some [HashGtParam, HashGeParam, HashLeFF]
      else if s = ''hash > ? AND hash >= ? AND hash < ?''
        then Some [HashGtParam, HashGeParam, HashLtParam]
      else if s = ''hash >= ? AND hash <= '' @ [CHR 0x27] @ ''ff'' @ [CHR 0x27]
        then Some [HashGeParam, HashLeFF]
      else if s = ''hash >= ? AND hash < ?''
        then Some [HashGeParam, HashLtParam]
      else None)"

fun bind_atoms :: "hash_atom list \<Rightarrow> sql_arg list \<Rightarrow> ((string \<Rightarrow> bool) \<times> sql_arg list) option" where
  "bind_atoms [] args = Some (\<lambda>h. True, args)"
| "bind_atoms (HashLeFF # as) args =
     map_option (\<lambda>(p, rest). (\<lambda>h. h \<le> ''ff'' \<and> p h, rest)) (bind_atoms as args)"
| "bind_atoms (HashGtParam # as) (ArgStr s # args) =
     map_option (\<lambda>(p, rest). (\<lambda>h. h > s \<and> p h, rest)) (bind_atoms as args)"
| "bind_atoms (HashGeParam # as) (ArgStr s # args) =
     map_option (\<lambda>(p, rest). (\<lambda>h. h \<ge> s \<and> p h, rest)) (bind_atoms as args)"
| "bind_atoms (HashLtParam # as) (ArgStr s # args) =
     map_option (\<lambda>(p, rest). (\<lambda>h. h < s \<and> p h, rest)) (bind_atoms as args)"
| "bind_atoms (a # as) args = None"

definition db_select :: "string \<Rightarrow> sql_arg list \<Rightarrow> Row list \<Rightarrow> string + Row list" where
  "db_select hashCondition args table =
     (case parse_hash_condition hashCondition of
        None \<Rightarrow> Inl ''SQL syntax error''
      | Some atoms \<Rightarrow>
          (case args of
             ArgInt tid # args1 \<Rightarrow>
               (case bind_atoms atoms args1 of
                  Some (p, [ArgInt lim]) \<Rightarrow>
                    if lim < 0 then Inl ''incorrect arguments''
                    else Inr (take (nat lim)
                           (sort_key Hash (filter (\<lambda>r. TenantID r = tid \<and> p (Hash r)) table)))
                | _ \<Rightarrow> Inl ''incorrect arguments'')
           | _ \<Rightarrow> Inl ''incorrect arguments''))"

text \<open>
  \<^verbatim>\<open>querySegmentInTx\<close>: the condition text and the argument list are built as the source
  builds them; then the query runs and its rows are scanned. The result comes with the
  transaction, which has one more query issued.
\<close>

definition querySegmentInTx :: "Config \<Rightarrow> Tx \<Rightarrow> Segment \<Rightarrow> string \<Rightarrow> (string + Row list) \<times> Tx" where
  "querySegmentInTx cfg tx seg lastHash =
     (let (endHex, useLessThan) = (if EndHex seg = ''100'' then (''ff'', False) else (EndHex seg, True));
          tableRef = (if MariaDBDatabase cfg \<noteq> '''' then MariaDBDatabase cfg @ ''.'' @ TableName cfg
                      else TableName cfg);
          hasCursor = (lastHash \<noteq> '''');
          hashCondition =
            (if hasCursor then
               (if \<not> useLessThan
                then ''hash > ? AND hash >= ? AND hash <= '' @ [CHR 0x27] @ ''ff'' @ [CHR 0x27]
                else ''hash > ? AND hash >= ? AND hash < ?'')
             else
               (if \<not> useLessThan
                then ''hash >= ? AND hash <= '' @ [CHR 0x27] @ ''ff'' @ [CHR 0x27]
                else ''hash >= ? AND hash < ?''));
          args0 = [ArgInt (ConfigTenantID cfg)];
          args1 =
            (if hasCursor then
               (args0 @ [ArgStr lastHash] @ [ArgStr (StartHex seg)]) @
               (if useLessThan then [ArgStr endHex] else [])
             else
               (args0 @ [ArgStr (StartHex seg)]) @ (if useLessThan then [ArgStr endHex] else []));
          args = args1 @ [ArgInt (BatchSize cfg)];
          tx' = tx\<lparr>tx_issued := Suc (tx_issued tx)\<rparr>
      in case tx_faults tx (tx_issued tx) of
           Some (QueryFailed e) \<Rightarrow> (Inl (''query failed: '' @ e), tx')
         | Some (ScanFailed e) \<Rightarrow>
             (case db_select hashCondition args (tx_rows tx) of
                Inl e' \<Rightarrow> (Inl (''query failed: '' @ e'), tx')
              | Inr rows \<Rightarrow>
                  if rows = [] then (Inr [], tx') else (Inl (''failed to scan row: '' @ e), tx'))
         | Some (IterFailed e) \<Rightarrow>
             (case db_select hashCondition args (tx_rows tx) of
                Inl e' \<Rightarrow> (Inl (''query failed: '' @ e'), tx')
              | Inr rows \<Rightarrow> (Inl (''row iteration error: '' @ e), tx'))
         | None \<Rightarrow>
             (case db_select hashCondition args (tx_rows tx) of
                Inl e' \<Rightarrow> (Inl (''query failed: '' @ e'), tx')
              | Inr rows \<Rightarrow> (Inr rows, tx')))"

text \<open>The remote key of a segment's object, as \<^verbatim>\<open>ExportSegment\<close> formats it.\<close>

definition segment_filename :: "Config \<Rightarrow> Segment \<Rightarrow> string" where
  "segment_filename cfg seg =
     ''tenant-'' @ fmt_d (ConfigTenantID cfg) @ ''.'' @ TableName cfg @ ''.hash-'' @
     StartHex seg @ ''-'' @ EndHex seg @ ''.csv''"

definition segment_s3Key :: "Config \<Rightarrow> Segment \<Rightarrow> string" where
  "segment_s3Key cfg seg =
     S3Prefix cfg @ ''/tenant-'' @ fmt_d (ConfigTenantID cfg) @ ''/'' @ TableName cfg @ ''/'' @
     segment_filename cfg seg"

section \<open>Package s3: the object store and the multipart upload stream\<close>

text \<open>
  The remote service, for the one upload session that a segment's export opens. The
  service keeps the parts it has accepted, by part number, until the session is completed
  or aborted; completing makes the object, which is the listed parts' contents in the
  order listed. The entity tag of a part is a digest of its content and is modelled by
  the content. Failures are an input: \<open>s3_faults k\<close> says whether the \<open>k\<close>-th request
  sent to the service fails. The record also keeps the durations that the process has
  passed to \<^verbatim>\<open>time.Sleep\<close>, in nanoseconds.
\<close>

datatype session_state = NoSession | Open | Completed | Aborted

record S3 =
  s3_faults :: "nat \<Rightarrow> string option"
  s3_requests :: nat
  s3_state :: session_state
  s3_staged :: "(int \<times> string) list"
  s3_object :: "string option"
  s3_abort_requests :: nat
  s3_slept :: "int list"

record CompletedPart =
  ETag :: string
  PartNumber :: int

definition next_request :: "S3 \<Rightarrow> S3" where
  "next_request s = s\<lparr>s3_requests := Suc (s3_requests s)\<rparr>"

definition svc_CreateMultipartUpload :: "S3 \<Rightarrow> (string + string) \<times> S3" where
  "svc_CreateMultipartUpload s =
     (case s3_faults s (s3_requests s) of
        Some e \<Rightarrow> (Inl e, next_request s)
      | None \<Rightarrow> (Inr ''upload-id'', next_request (s\<lparr>s3_state := Open, s3_staged := []\<rparr>)))"

definition svc_UploadPart :: "int \<Rightarrow> string \<Rightarrow> S3 \<Rightarrow> (string + string) \<times> S3" where
  "svc_UploadPart n data s =
     (case s3_faults s (s3_requests s) of
        Some e \<Rightarrow> (Inl e, next_request s)
      | None \<Rightarrow>
          if s3_state s \<noteq> Open then (Inl ''NoSuchUpload'', next_request s)
          else if n < 1 \<or> n > 10000 then (Inl ''InvalidArgument'', next_request s)
          else (Inr data,
                next_request (s\<lparr>s3_staged := filter (\<lambda>p. fst p \<noteq> n) (s3_staged s) @ [(n, data)]\<rparr>)))"

fun strictly_ascending :: "int list \<Rightarrow> bool" where
  "strictly_ascending (a # b # rest) = (a < b \<and> strictly_ascending (b # rest))"
| "strictly_ascending _ = True"

definition part_matches :: "(int \<times> string) list \<Rightarrow> CompletedPart \<Rightarrow> bool" where
  "part_matches staged p = (map_of staged (PartNumber p) = Some (ETag p))"

definition svc_CompleteMultipartUpload :: "CompletedPart list \<Rightarrow> S3 \<Rightarrow> (string + unit) \<times> S3" where
  "svc_CompleteMultipartUpload ps s =
     (case s3_faults s (s3_requests s) of
        Some e \<Rightarrow> (Inl e, next_request s)
      | None \<Rightarrow>
          if s3_state s \<noteq> Open then (Inl ''NoSuchUpload'', next_request s)
          else if ps = [] then (Inl ''MalformedXML'', next_request s)
          else if \<not> strictly_ascending (map PartNumber ps) then (Inl ''InvalidPartOrder'', next_request s)
          else if \<not> list_all (part_matches (s3_staged s)) ps then (Inl ''InvalidPart'', next_request s)
          else (Inr (),
                next_request (s\<lparr>s3_state := Completed,
                                s3_object := Some (concat (map ETag ps))\<rparr>)))"

definition svc_AbortMultipartUpload :: "S3 \<Rightarrow> (string + unit) \<times> S3" where
  "svc_AbortMultipartUpload s =
     (let s1 = s\<lparr>s3_abort_requests := Suc (s3_abort_requests s)\<rparr>
      in case s3_faults s (s3_requests s) of
           Some e \<Rightarrow> (Inl e, next_request s1)
         | None \<Rightarrow>
             if s3_state s \<noteq> Open then (Inl ''NoSuchUpload'', next_request s1)
             else (Inr (), next_request (s1\<lparr>s3_state := Aborted, s3_staged := []\<rparr>)))"

definition sleep :: "int \<Rightarrow> S3 \<Rightarrow> S3" where
  "sleep d s = s\<lparr>s3_slept := s3_slept s @ [d]\<rparr>"

definition maxS3Retries :: int where
  "maxS3Retries = 5"

definition initialRetryDelay :: int where
  "initialRetryDelay = 1 * 1000000000"

record MultipartUploadStream =
  bucket :: string
  key :: string
  uploadID :: string
  parts :: "CompletedPart list"
  partNumber :: int

text \<open>\<^verbatim>\<open>abortMultipartUpload\<close>: the outcome of the request is only logged.\<close>

definition abortMultipartUpload :: "string \<Rightarrow> string \<Rightarrow> string \<Rightarrow> S3 \<Rightarrow> S3" where
  "abortMultipartUpload b k uid s = snd (svc_AbortMultipartUpload s)"

definition NewMultipartUploadStream :: "Config \<Rightarrow> string \<Rightarrow> S3 \<Rightarrow> (string + MultipartUploadStream) \<times> S3" where
  "NewMultipartUploadStream cfg s3Key s =
     (case svc_CreateMultipartUpload s of
        (Inl e, s') \<Rightarrow> (Inl (''failed to create multipart upload: '' @ e), s')
      | (Inr uid, s') \<Rightarrow>
          (Inr \<lparr>bucket = S3Bucket cfg, key = s3Key, uploadID = uid, parts = [], partNumber = 1\<rparr>, s'))"

text \<open>
  The retry loop of \<^verbatim>\<open>UploadPart\<close>, \<^verbatim>\<open>for attempt := 1; attempt <= maxS3Retries; attempt++\<close>.
  It is entered with \<open>attempt = 1\<close>, so its body runs at least once: the function is the
  body, called again after a failed attempt that is not the last. Between two attempts
  the process sleeps \<^verbatim>\<open>initialRetryDelay * time.Duration(attempt)\<close>.
\<close>

function upload_attempts :: "int \<Rightarrow> string \<Rightarrow> int \<Rightarrow> S3 \<Rightarrow> (string + string) \<times> S3" where
  "upload_attempts n data attempt s =
     (case svc_UploadPart n data s of
        (Inr etag, s') \<Rightarrow> (Inr etag, s')
      | (Inl e, s') \<Rightarrow>
          if attempt < maxS3Retries
          then upload_attempts n data (attempt + 1) (sleep (initialRetryDelay * attempt) s')
          else (Inl e, s'))"
  by pat_completeness auto
termination
  by (relation "measure (\<lambda>(n, data, attempt, s). nat (maxS3Retries - attempt))") auto

declare upload_attempts.simps [simp del]

definition UploadPart :: "MultipartUploadStream \<Rightarrow> string \<Rightarrow> S3 \<Rightarrow> string option \<times> MultipartUploadStream \<times> S3" where
  "UploadPart m data s =
     (if length data = 0 then (None, m, s)
      else case upload_attempts (partNumber m) data 1 s of
             (Inl e, s') \<Rightarrow>
               (Some (''failed to upload part '' @ fmt_d (partNumber m) @ '': '' @ e), m,
                abortMultipartUpload (bucket m) (key m) (uploadID m) s')
           | (Inr etag, s') \<Rightarrow>
               (None,
                m\<lparr>parts := parts m @ [\<lparr>ETag = etag, PartNumber = partNumber m\<rparr>],
                  partNumber := partNumber m + 1\<rparr>,
                s'))"

definition Complete :: "MultipartUploadStream \<Rightarrow> S3 \<Rightarrow> string option \<times> S3" where
  "Complete m s =
     (if length (parts m) = 0
      then (Some ''no parts uploaded'', abortMultipartUpload (bucket m) (key m) (uploadID m) s)
      else case svc_CompleteMultipartUpload (parts m) s of
             (Inl e, s') \<Rightarrow>
               (Some (''failed to complete multipart upload: '' @ e),
                abortMultipartUpload (bucket m) (key m) (uploadID m) s')
           | (Inr u, s') \<Rightarrow> (None, s'))"

definition Abort :: "MultipartUploadStream \<Rightarrow> S3 \<Rightarrow> S3" where
  "Abort m s = abortMultipartUpload (bucket m) (key m) (uploadID m) s"

section \<open>Package exporter: the export of one segment\<close>

record CSVFile =
  FilePath :: string
  S3Key :: string
  CSVSegment :: Segment
  RowCount :: int

text \<open>
  What \<^verbatim>\<open>sql.DB\<close> gives the exporter: whether \<^verbatim>\<open>BeginTx\<close> fails, the transaction it
  opens, and whether \<^verbatim>\<open>Commit\<close> fails. How the transaction ended is part of the result.
\<close>

record DB =
  db_begin_error :: "string option"
  db_tx :: Tx
  db_commit_error :: "string option"

datatype tx_end = NotBegun | Committed | CommitFailed | RolledBack

definition maxBatches :: nat where
  "maxBatches = 10000"

text \<open>
  The pagination loop of \<^verbatim>\<open>ExportSegment\<close>, \<^verbatim>\<open>for batchNum < maxBatches\<close>. It returns the
  error with which the function returns from inside the loop, if it does, and the loop
  variables.
\<close>

function export_loop ::
  "Config \<Rightarrow> Segment \<Rightarrow> nat \<Rightarrow> string \<Rightarrow> int \<Rightarrow> bool \<Rightarrow> Tx \<Rightarrow> MultipartUploadStream \<Rightarrow> S3 \<Rightarrow>
   string option \<times> nat \<times> int \<times> Tx \<times> MultipartUploadStream \<times> S3" where
  "export_loop cfg seg batchNum lastHash totalRows headerWritten tx stream s =
     (if batchNum < maxBatches then
        (case querySegmentInTx cfg tx seg (if batchNum = 0 then '''' else lastHash) of
           (Inl queryErr, tx') \<Rightarrow>
             (Some (''failed to query segment: '' @ queryErr), batchNum, totalRows, tx', stream, s)
         | (Inr rows, tx') \<Rightarrow>
             if length rows = 0 then (None, batchNum, totalRows, tx', stream, s)
             else
               (case UploadPart stream (rowsToCSVBytes rows (\<not> headerWritten)) s of
                  (Some e, stream', s') \<Rightarrow>
                    (Some (''failed to upload batch as multipart part: '' @ e),
                     batchNum, totalRows, tx', stream', s')
                | (None, stream', s') \<Rightarrow>
                    if int (length rows) < BatchSize cfg
                    then (None, batchNum, totalRows + int (length rows), tx', stream', s')
                    else export_loop cfg seg (batchNum + 1) (Hash (last rows))
                           (totalRows + int (length rows)) True tx' stream' s'))
      else (None, batchNum, totalRows, tx, stream, s))"
  by pat_completeness auto
termination
  by (relation "measure (\<lambda>(cfg, seg, batchNum, rest). maxBatches - batchNum)") auto

declare export_loop.simps [simp del]

text \<open>
  The first deferred call of \<^verbatim>\<open>ExportSegment\<close> aborts the stream when the variable
  \<^verbatim>\<open>err\<close> of the function body is not nil at the time the function returns. That
  variable is assigned by \<^verbatim>\<open>NewMultipartUploadStream\<close> and by \<^verbatim>\<open>BeginTx\<close> only: the
  results of the function are unnamed, and the errors inside and after the loop are
  \<^verbatim>\<open>queryErr\<close> or variables declared in an inner scope.
\<close>

definition deferred_abort :: "string option \<Rightarrow> MultipartUploadStream \<Rightarrow> S3 \<Rightarrow> S3" where
  "deferred_abort err stream s = (if err \<noteq> None then Abort stream s else s)"

record ExportResult =
  returned :: "string + CSVFile option"
  store :: S3
  transaction :: tx_end

definition ExportSegment :: "Config \<Rightarrow> DB \<Rightarrow> S3 \<Rightarrow> Segment \<Rightarrow> ExportResult" where
  "ExportSegment cfg db s0 seg =
     (let s3Key = segment_s3Key cfg seg
      in case NewMultipartUploadStream cfg s3Key s0 of
           (Inl e, s1) \<Rightarrow>
             \<lparr>returned = Inl (''failed to initiate multipart upload: '' @ e), store = s1,
              transaction = NotBegun\<rparr>
         | (Inr stream, s1) \<Rightarrow>
             (case db_begin_error db of
                Some e \<Rightarrow>
                  \<lparr>returned = Inl (''failed to start transaction: '' @ e),
                   store = deferred_abort (Some e) stream s1, transaction = NotBegun\<rparr>
              | None \<Rightarrow>
                  (let err = None
                   in case export_loop cfg seg 0 '''' 0 False (db_tx db) stream s1 of
                        (Some e, batchNum, totalRows, tx', stream', s2) \<Rightarrow>
                          \<lparr>returned = Inl e, store = deferred_abort err stream' s2,
                           transaction = RolledBack\<rparr>
                      | (None, batchNum, totalRows, tx', stream', s2) \<Rightarrow>
                          (case db_commit_error db of
                             Some e \<Rightarrow>
                               \<lparr>returned = Inl (''failed to commit transaction: '' @ e),
                                store = deferred_abort err stream' s2, transaction = CommitFailed\<rparr>
                           | None \<Rightarrow>
                               if totalRows = 0 then
                                 \<lparr>returned = Inr None,
                                  store = deferred_abort err stream' (Abort stream' s2),
                                  transaction = Committed\<rparr>
                               else
                                 (case Complete stream' s2 of
                                    (Some e, s3) \<Rightarrow>
                                      \<lparr>returned = Inl (''failed to complete multipart upload: '' @ e),
                                       store = deferred_abort err stream' s3,
                                       transaction = Committed\<rparr>
                                  | (None, s3) \<Rightarrow>
                                      \<lparr>returned = Inr (Some \<lparr>FilePath = '''', S3Key = s3Key,
                                                         CSVSegment = seg, RowCount = totalRows\<rparr>),
                                       store = deferred_abort err stream' s3,
                                       transaction = Committed\<rparr>)))))"

section \<open>Auxiliary definitions for the statements\<close>

text \<open>The row filter of a segment's query, for a cursor that may be empty.\<close>

definition segment_filter :: "Config \<Rightarrow> Segment \<Rightarrow> string \<Rightarrow> Row \<Rightarrow> bool" where
  "segment_filter cfg seg cursor r =
     (TenantID r = ConfigTenantID cfg \<and> Hash r \<ge> StartHex seg \<and>
      (if EndHex seg = ''100'' then Hash r \<le> ''ff'' else Hash r < EndHex seg) \<and>
      (cursor \<noteq> '''' \<longrightarrow> Hash r > cursor))"

text \<open>
  The remote key in the words of the interface section:
  \<^verbatim>\<open>{prefix}/tenant-{tenantId}/{table}/{table}.hash-{startKey}-{endKey}.{ext}\<close>.
\<close>

definition spec_remote_key :: "string \<Rightarrow> int \<Rightarrow> string \<Rightarrow> string \<Rightarrow> string \<Rightarrow> string \<Rightarrow> string" where
  "spec_remote_key prefix tenantId table startKey endKey ext =
     prefix @ ''/tenant-'' @ fmt_d tenantId @ ''/'' @ table @ ''/'' @ table @ ''.hash-'' @
     startKey @ ''-'' @ endKey @ ''.'' @ ext"

text \<open>A backoff is exponential when every delay is twice the one before.\<close>

fun doubling :: "int list \<Rightarrow> bool" where
  "doubling (a # b # rest) = (b = 2 * a \<and> doubling (b # rest))"
| "doubling _ = True"

text \<open>Concrete inputs on which the definitions are run.\<close>

definition example_row :: "string \<Rightarrow> Row" where
  "example_row h = \<lparr>TenantID = 7, Hash = h, Aggr = ''{}'', LastModified = None, Version = Some 3\<rparr>"

definition example_cfg :: Config where
  "example_cfg = \<lparr>ConfigTenantID = 7, TableName = ''fis_aggr'', MariaDBDatabase = ''fis'',
     BatchSize = 2, S3Prefix = ''p'', S3Bucket = ''b'', MaxParallelSegs = 8\<rparr>"

definition example_tx :: Tx where
  "example_tx = \<lparr>tx_rows = [example_row ''ffabc'', example_row ''40abc'', example_row ''00abc'',
       example_row ''3fabc'', example_row ''1aabc'', (example_row ''01abc'')\<lparr>TenantID := 8\<rparr>],
     tx_faults = (\<lambda>k. None), tx_issued = 0\<rparr>"

definition example_db :: DB where
  "example_db = \<lparr>db_begin_error = None, db_tx = example_tx, db_commit_error = None\<rparr>"

definition example_s3 :: S3 where
  "example_s3 = \<lparr>s3_faults = (\<lambda>k. None), s3_requests = 0, s3_state = NoSession, s3_staged = [],
     s3_object = None, s3_abort_requests = 0, s3_slept = []\<rparr>"

definition example_seg :: Segment where
  "example_seg = \<lparr>Index = 0, StartHex = ''00'', EndHex = ''40''\<rparr>"

text \<open>A database whose second query of the transaction fails.\<close>

definition failing_db :: DB where
  "failing_db = example_db\<lparr>db_tx := example_tx\<lparr>tx_faults :=
     (\<lambda>k. if k = 1 then Some (QueryFailed ''timeout'') else None)\<rparr>\<rparr>"

text \<open>An open session whose first three requests fail, and a stream on it.\<close>

definition flaky_s3 :: S3 where
  "flaky_s3 = example_s3\<lparr>s3_state := Open,
     s3_faults := (\<lambda>k. if k < 3 then Some ''SlowDown'' else None)\<rparr>"

definition example_stream :: MultipartUploadStream where
  "example_stream = \<lparr>bucket = ''b'', key = ''k'', uploadID = ''upload-id'', parts = [], partNumber = 1\<rparr>"

text \<open>
  What holds between a stream and the service after the parts \<open>sent\<close> have been uploaded
  through the stream: the stream's list has them under the numbers 1, 2, 3 and so on, and
  as long as the session is open the service holds exactly these parts.
\<close>

definition stream_inv :: "MultipartUploadStream \<Rightarrow> S3 \<Rightarrow> string list \<Rightarrow> bool" where
  "stream_inv m s sent =
     (map PartNumber (parts m) = map int [1..<Suc (length sent)] \<and>
      map ETag (parts m) = sent \<and>
      partNumber m = int (length sent) + 1 \<and>
      s3_state s \<noteq> Completed \<and> s3_state s \<noteq> NoSession \<and>
      (s3_state s = Open \<longrightarrow> s3_staged s = zip (map int [1..<Suc (length sent)]) sent))"

text \<open>
  A sequence of \<^verbatim>\<open>UploadPart\<close> calls on a stream; the third component lists the
  non-empty contents whose call returned nil.
\<close>

fun upload_all ::
  "MultipartUploadStream \<Rightarrow> S3 \<Rightarrow> string list \<Rightarrow> MultipartUploadStream \<times> S3 \<times> string list" where
  "upload_all m s [] = (m, s, [])"
| "upload_all m s (d # ds) =
     (case UploadPart m d s of
        (err, m', s') \<Rightarrow>
          (case upload_all m' s' ds of
             (m'', s'', sent) \<Rightarrow> (m'', s'', (if err = None \<and> d \<noteq> [] then [d] else []) @ sent)))"

section \<open>The partition of the hash space\<close>

lemma seg_start_0: "0 < n \<Longrightarrow> seg_start n 0 = 0"
  by (simp add: seg_start_def)

lemma seg_start_n: "0 < n \<Longrightarrow> seg_start n n = 256"
proof -
  assume n: "0 < n"
  then have "256 mod n < n" by simp
  then have "min n (256 mod n) = 256 mod n" by simp
  then show ?thesis by (simp add: seg_start_def mult.commute)
qed

lemma seg_start_step:
  "seg_start n (i + 1) = seg_start n i + (if i < 256 mod n then 256 div n + 1 else 256 div n)"
  by (simp add: seg_start_def algebra_simps min_def)

lemma seg_start_mono: "0 < n \<Longrightarrow> 0 \<le> i \<Longrightarrow> i \<le> j \<Longrightarrow> seg_start n i \<le> seg_start n j"
proof -
  assume n: "0 < n" and ij: "i \<le> j" and i: "0 \<le> i"
  have "0 \<le> (256::int) div n" using n by (simp add: pos_imp_zdiv_nonneg_iff)
  then have "i * (256 div n) \<le> j * (256 div n)" using ij by (simp add: mult_right_mono)
  moreover have "min i (256 mod n) \<le> min j (256 mod n)" using ij by simp
  ultimately show ?thesis by (simp add: seg_start_def add_mono)
qed

lemma seg_start_le: "0 < n \<Longrightarrow> 0 \<le> i \<Longrightarrow> i \<le> n \<Longrightarrow> seg_start n i \<le> 256"
  using seg_start_mono [of n i n] seg_start_n [of n] by simp

lemma seg_start_ge: "0 < n \<Longrightarrow> 0 \<le> i \<Longrightarrow> 0 \<le> seg_start n i"
  using seg_start_mono [of n 0 i] seg_start_0 [of n] by simp

lemma segment_loop_length: "length (segment_loop n q r i start segs) = length segs"
proof (induction n q r i start segs rule: segment_loop.induct)
  case (1 segments segmentSize remainder i start segs)
  show ?case
  proof (cases "i < segments")
    case True
    then show ?thesis
      using "1.IH" [OF True refl refl refl]
      by (subst segment_loop.simps) (simp add: Let_def)
  next
    case False
    then show ?thesis by (subst segment_loop.simps) simp
  qed
qed

lemma segment_loop_nth:
  "0 < n \<Longrightarrow> n \<le> 256 \<Longrightarrow> 0 \<le> i \<Longrightarrow> i \<le> n \<Longrightarrow> start = seg_start n i \<Longrightarrow>
   length segs = nat n \<Longrightarrow> j < nat n \<Longrightarrow>
   segment_loop n (256 div n) (256 mod n) i start segs ! j =
     (if nat i \<le> j then \<lparr>Index = int j, StartHex = intToHex (seg_start n (int j)),
                            EndHex = intToHex (seg_start n (int j + 1))\<rparr>
      else segs ! j)"
proof (induction n "256 div n" "256 mod n" i start segs rule: segment_loop.induct)
  case (1 segments i start segs)
  show ?case
  proof (cases "i < segments")
    case True
    let ?size = "if i < 256 mod segments then 256 div segments + 1 else 256 div segments"
    let ?end0 = "start + ?size"
    have e0: "?end0 = seg_start segments (i + 1)"
      using "1.prems"(5) seg_start_step [of segments i] by simp
    have le: "?end0 \<le> 256"
      using e0 seg_start_le [of segments "i + 1"] "1.prems" True by simp
    let ?segs' = "segs[nat i := \<lparr>Index = i, StartHex = intToHex start, EndHex = intToHex ?end0\<rparr>]"
    have unf: "segment_loop segments (256 div segments) (256 mod segments) i start segs =
               segment_loop segments (256 div segments) (256 mod segments) (i + 1) ?end0 ?segs'"
      using True le by (subst segment_loop.simps) (simp add: Let_def)
    have IH: "segment_loop segments (256 div segments) (256 mod segments) (i + 1) ?end0 ?segs' ! j =
       (if nat (i + 1) \<le> j then \<lparr>Index = int j, StartHex = intToHex (seg_start segments (int j)),
                            EndHex = intToHex (seg_start segments (int j + 1))\<rparr>
        else ?segs' ! j)"
      using "1.hyps" [OF True refl refl, of "if ?end0 > 256 then 256 else ?end0"] le e0 "1.prems" True
      by simp
    have ni: "nat (i + 1) = Suc (nat i)" using "1.prems"(3) by simp
    have ii: "int (nat i) = i" using "1.prems"(3) by simp
    show ?thesis
    proof (cases "j = nat i")
      case True
      then show ?thesis unfolding unf IH ni using "1.prems"(5,6,7) e0 ii by simp
    next
      case False
      then show ?thesis unfolding unf IH ni by auto
    qed
  next
    case False
    then have "i = segments" using "1.prems" by simp
    then show ?thesis using "1.prems" by (subst segment_loop.simps) simp
  qed
qed

lemma hex_value_digit_char: "d < 16 \<Longrightarrow> hex_value (digit_char d) = Some d"
  by (simp add: hex_value_def digit_char_def Let_def)

lemma char_of_48: "char_of (48::nat) = CHR ''0''"
  by code_simp

lemma fmt_02x_small:
  assumes "0 \<le> v" "v < 256"
  shows "fmt_02x v = [digit_char (nat v div 16), digit_char (nat v mod 16)]"
proof (cases "nat v < 16")
  case True
  then show ?thesis using assms by (simp add: fmt_02x_def pad_zero_def digit_char_def char_of_48)
next
  case False
  then have "nat v div 16 < 16" using assms by auto
  then show ?thesis using assms False
    by (simp add: fmt_02x_def pad_zero_def)
qed

lemma HexToInt_intToHex:
  assumes "0 \<le> v" "v \<le> 256"
  shows "HexToInt (intToHex v) = Inr v"
proof (cases "v = 256")
  case True
  then show ?thesis by (simp add: intToHex_def HexToInt_def SetString16_def hex_value_def)
next
  case False
  then have lt: "v < 256" using assms by simp
  have d1: "nat v div 16 < 16" and d2: "nat v mod 16 < 16" using lt by auto
  have ne: "digit_char (nat v div 16) \<noteq> CHR ''-''" "digit_char (nat v div 16) \<noteq> CHR ''+''"
    using hex_value_digit_char [OF d1] by (auto simp: hex_value_def)
  have "SetString16 (intToHex v) = Some (int (16 * (nat v div 16) + nat v mod 16))"
    using lt assms ne
    by (simp add: intToHex_def fmt_02x_small SetString16_def hex_value_digit_char [OF d1]
        hex_value_digit_char [OF d2])
  also have "int (16 * (nat v div 16) + nat v mod 16) = v" using assms by simp
  finally have "SetString16 (intToHex v) = Some v" .
  moreover have "sint (word_of_int v :: 64 word) = v"
    using assms lt by (simp add: sint_sbintrunc' signed_take_bit_int_eq_self)
  ultimately show ?thesis by (simp add: HexToInt_def)
qed

lemma intToHex_0: "intToHex 0 = ''00''"
  by (simp add: intToHex_def fmt_02x_def pad_zero_def digit_char_def char_of_48)

lemma intToHex_ne_ff: "intToHex 256 \<noteq> ''ff''"
  by (simp add: intToHex_def)

lemma SegmentHashSpace_valid:
  assumes "0 < n" "n \<le> 256"
  shows "SegmentHashSpace n = Inr (map (seg_at n) [0..<nat n])"
proof -
  let ?init = "replicate (nat n) \<lparr>Index = 0, StartHex = '''', EndHex = ''''\<rparr>"
  let ?segs = "segment_loop n (256 div n) (256 mod n) 0 0 ?init"
  have len: "length ?segs = nat n" by (simp add: segment_loop_length)
  have nth: "?segs ! j = seg_at n j" if "j < nat n" for j
    using segment_loop_nth [where n = n and i = 0 and start = 0 and segs = ?init and j = j] assms that
    by (simp add: seg_start_0 seg_at_def)
  have eq: "?segs = map (seg_at n) [0..<nat n]"
    by (rule nth_equalityI) (simp_all add: len nth)
  have pos: "0 < nat n" using assms by simp
  have "seg_start n (int (nat n - 1) + 1) = 256"
    using assms seg_start_n [of n] by (simp add: of_nat_diff)
  then have last: "EndHex (?segs ! (nat n - 1)) \<noteq> ''ff''"
    using nth [of "nat n - 1"] pos by (simp add: seg_at_def intToHex_def)
  show ?thesis
    unfolding SegmentHashSpace_def Let_def
    using assms last len pos eq by simp
qed

text \<open>
  Claim C1. For every \<open>n\<close> from 1 to 256, \<^verbatim>\<open>SegmentHashSpace(n)\<close> succeeds with exactly
  \<open>n\<close> segments; the first starts at \<^verbatim>\<open>00\<close>, the last ends at the sentinel \<^verbatim>\<open>100\<close>,
  each segment ends where the next one starts, and segment \<open>i\<close> (whose index field is \<open>i\<close>)
  spans \<open>256 div n + 1\<close> prefix values when \<open>i < 256 mod n\<close> and \<open>256 div n\<close> otherwise,
  the boundaries being read back as numbers by \<^verbatim>\<open>HexToInt\<close>. For \<open>n \<le> 0\<close> or
  \<open>n > 256\<close> it returns an error.
\<close>

theorem SegmentHashSpace_partition:
  "(1 \<le> n \<and> n \<le> 256 \<longrightarrow>
      (\<exists>segs. SegmentHashSpace n = Inr segs \<and> length segs = nat n \<and>
         StartHex (segs ! 0) = ''00'' \<and> EndHex (last segs) = ''100'' \<and>
         (\<forall>i. Suc i < nat n \<longrightarrow> EndHex (segs ! i) = StartHex (segs ! Suc i)) \<and>
         (\<forall>i < nat n. \<exists>a b. Index (segs ! i) = int i \<and>
              HexToInt (StartHex (segs ! i)) = Inr a \<and> HexToInt (EndHex (segs ! i)) = Inr b \<and>
              0 \<le> a \<and> a < b \<and> b \<le> 256 \<and>
              b - a = 256 div n + (if int i < 256 mod n then 1 else 0)))) \<and>
   (n \<le> 0 \<or> n > 256 \<longrightarrow> (\<exists>e. SegmentHashSpace n = Inl e))"
proof (intro conjI impI)
  assume "n \<le> 0 \<or> n > 256"
  then show "\<exists>e. SegmentHashSpace n = Inl e"
    by (auto simp: SegmentHashSpace_def)
next
  assume "1 \<le> n \<and> n \<le> 256"
  then have n: "0 < n" "n \<le> 256" by simp_all
  let ?segs = "map (seg_at n) [0..<nat n]"
  have pos: "0 < nat n" using n by simp
  have q: "0 < (256::int) div n" using n by (simp add: pos_imp_zdiv_pos_iff)
  have first: "StartHex (?segs ! 0) = ''00''"
    using pos n by (simp add: seg_at_def seg_start_0 intToHex_0)
  have "seg_start n (int (nat n - 1) + 1) = 256"
    using n seg_start_n [of n] by (simp add: of_nat_diff)
  then have lst: "EndHex (last ?segs) = ''100''"
    using pos by (simp add: last_map seg_at_def intToHex_def)
  have adj: "\<forall>i. Suc i < nat n \<longrightarrow> EndHex (?segs ! i) = StartHex (?segs ! Suc i)"
    by (simp add: seg_at_def add.commute)
  have span: "\<exists>a b. Index (?segs ! i) = int i \<and>
              HexToInt (StartHex (?segs ! i)) = Inr a \<and> HexToInt (EndHex (?segs ! i)) = Inr b \<and>
              0 \<le> a \<and> a < b \<and> b \<le> 256 \<and>
              b - a = 256 div n + (if int i < 256 mod n then 1 else 0)" if i: "i < nat n" for i
  proof -
    let ?a = "seg_start n (int i)" and ?b = "seg_start n (int i + 1)"
    have a0: "0 \<le> ?a" using n by (simp add: seg_start_ge)
    have b256: "?b \<le> 256" using n i by (intro seg_start_le) simp_all
    have step: "?b = ?a + (if int i < 256 mod n then 256 div n + 1 else 256 div n)"
      by (rule seg_start_step)
    have ab: "?a < ?b" using step q by simp
    have ha: "HexToInt (intToHex ?a) = Inr ?a" using a0 ab b256 by (intro HexToInt_intToHex) simp_all
    have hb: "HexToInt (intToHex ?b) = Inr ?b" using a0 ab b256 by (intro HexToInt_intToHex) simp_all
    show ?thesis
      using i ha hb a0 ab b256 step by (simp add: seg_at_def)
  qed
  show "\<exists>segs. SegmentHashSpace n = Inr segs \<and> length segs = nat n \<and>
         StartHex (segs ! 0) = ''00'' \<and> EndHex (last segs) = ''100'' \<and>
         (\<forall>i. Suc i < nat n \<longrightarrow> EndHex (segs ! i) = StartHex (segs ! Suc i)) \<and>
         (\<forall>i < nat n. \<exists>a b. Index (segs ! i) = int i \<and>
              HexToInt (StartHex (segs ! i)) = Inr a \<and> HexToInt (EndHex (segs ! i)) = Inr b \<and>
              0 \<le> a \<and> a < b \<and> b \<le> 256 \<and>
              b - a = 256 div n + (if int i < 256 mod n then 1 else 0))"
    apply (rule exI [of _ ?segs])
    using SegmentHashSpace_valid [OF n] first lst adj span by simp
qed

theorem SegmentHashSpace_partition_witness:
  "(1::int) \<le> 3 \<and> (3::int) \<le> 256 \<and>
     SegmentHashSpace 3 = Inr [\<lparr>Index = 0, StartHex = ''00'', EndHex = ''56''\<rparr>,
        \<lparr>Index = 1, StartHex = ''56'', EndHex = ''ab''\<rparr>,
        \<lparr>Index = 2, StartHex = ''ab'', EndHex = ''100''\<rparr>] \<and>
     (\<exists>e. SegmentHashSpace 0 = Inl e)"
proof -
  have ev: "SegmentHashSpace 3 = Inr [\<lparr>Index = 0, StartHex = ''00'', EndHex = ''56''\<rparr>,
        \<lparr>Index = 1, StartHex = ''56'', EndHex = ''ab''\<rparr>,
        \<lparr>Index = 2, StartHex = ''ab'', EndHex = ''100''\<rparr>]"
    by code_simp
  show ?thesis
    using SegmentHashSpace_partition [of 3] SegmentHashSpace_partition [of 0] ev by simp
qed

section \<open>The segment query\<close>

lemma querySegmentInTx_ok:
  assumes "tx_faults tx (tx_issued tx) = None" "0 \<le> BatchSize cfg"
  shows "fst (querySegmentInTx cfg tx seg cursor) =
         Inr (take (nat (BatchSize cfg)) (sort_key Hash (filter (segment_filter cfg seg cursor) (tx_rows tx))))"
proof (cases "EndHex seg = ''100''")
  case True
  show ?thesis
  proof (cases "cursor = ''''")
    case c: True
    show ?thesis using assms True c
      by (simp add: querySegmentInTx_def db_select_def parse_hash_condition_def
          segment_filter_def [abs_def] cong: conj_cong)
  next
    case c: False
    show ?thesis using assms True c
      by (simp add: querySegmentInTx_def db_select_def parse_hash_condition_def
          segment_filter_def [abs_def] conj_commute conj_left_commute cong: conj_cong)
  qed
next
  case False
  show ?thesis
  proof (cases "cursor = ''''")
    case c: True
    show ?thesis using assms False c
      by (simp add: querySegmentInTx_def db_select_def parse_hash_condition_def
          segment_filter_def [abs_def] cong: conj_cong)
  next
    case c: False
    show ?thesis using assms False c
      by (simp add: querySegmentInTx_def db_select_def parse_hash_condition_def
          segment_filter_def [abs_def] conj_commute conj_left_commute cong: conj_cong)
  qed
qed

text \<open>
  Claim C3. When the query does not fail and the configured batch size is not negative,
  \<^verbatim>\<open>querySegmentInTx\<close> returns the rows of the tenant whose key is at least the segment's
  start and below its end, or at most \<^verbatim>\<open>ff\<close> when the end is the sentinel \<^verbatim>\<open>100\<close>,
  and above the cursor when the cursor is not empty; the rows are in ascending key order
  and there are at most \<^verbatim>\<open>BatchSize\<close> of them (the first ones in that order).
\<close>

theorem querySegmentInTx_filter:
  assumes "tx_faults tx (tx_issued tx) = None" and "0 \<le> BatchSize cfg"
  shows "\<exists>rows. fst (querySegmentInTx cfg tx seg cursor) = Inr rows \<and>
     rows = take (nat (BatchSize cfg)) (sort_key Hash (filter
              (\<lambda>r. TenantID r = ConfigTenantID cfg \<and> Hash r \<ge> StartHex seg \<and>
                   (if EndHex seg = ''100'' then Hash r \<le> ''ff'' else Hash r < EndHex seg) \<and>
                   (cursor \<noteq> '''' \<longrightarrow> Hash r > cursor))
              (tx_rows tx))) \<and>
     sorted (map Hash rows) \<and> int (length rows) \<le> BatchSize cfg"
proof -
  let ?rows = "take (nat (BatchSize cfg)) (sort_key Hash (filter (segment_filter cfg seg cursor) (tx_rows tx)))"
  have "sorted (map Hash (sort_key Hash (filter (segment_filter cfg seg cursor) (tx_rows tx))))"
    by (rule sorted_sort_key)
  then have "sorted (take (nat (BatchSize cfg)) (map Hash (sort_key Hash (filter (segment_filter cfg seg cursor) (tx_rows tx)))))"
    by (rule sorted_wrt_take)
  then have s: "sorted (map Hash ?rows)" by (simp add: take_map)
  have l: "int (length ?rows) \<le> BatchSize cfg" using assms(2) by simp
  show ?thesis
    using querySegmentInTx_ok [OF assms, of seg cursor] s l
    by (simp add: segment_filter_def [abs_def])
qed

theorem querySegmentInTx_filter_witness:
  "tx_faults example_tx (tx_issued example_tx) = None \<and> 0 \<le> BatchSize example_cfg \<and>
   fst (querySegmentInTx example_cfg example_tx example_seg ''00abc'') =
     Inr [example_row ''1aabc'', example_row ''3fabc'']"
proof -
  have h1: "tx_faults example_tx (tx_issued example_tx) = None" by (simp add: example_tx_def)
  have h2: "0 \<le> BatchSize example_cfg" by (simp add: example_cfg_def)
  have "segment_filter example_cfg example_seg ''00abc'' = (\<lambda>r. TenantID r = 7 \<and> ''00'' \<le> Hash r \<and> Hash r < ''40'' \<and> ''00abc'' < Hash r)"
    by (simp add: segment_filter_def [abs_def] example_cfg_def example_seg_def)
  show ?thesis
    using querySegmentInTx_filter [OF h1 h2, of example_seg "''00abc''"] h1 h2
    by (simp add: example_tx_def example_cfg_def example_seg_def example_row_def)
qed

section \<open>The remote key\<close>

lemma example_export:
  "returned (ExportSegment example_cfg example_db example_s3 example_seg) =
     Inr (Some \<lparr>FilePath = '''', S3Key = ''p/tenant-7/fis_aggr/tenant-7.fis_aggr.hash-00-40.csv'',
                CSVSegment = example_seg, RowCount = 3\<rparr>)"
  by code_simp

text \<open>
  Claim C6, as the code has it. The key of every exported segment is
  \<^verbatim>\<open>{prefix}/tenant-{tenantId}/{table}/tenant-{tenantId}.{table}.hash-{startKey}-{endKey}.csv\<close>:
  the file name starts with the tenant, and the extension is \<^verbatim>\<open>csv\<close>.
\<close>

theorem ExportSegment_s3Key_format:
  "returned (ExportSegment cfg db s seg) = Inr (Some f) \<Longrightarrow>
   S3Key f = S3Prefix cfg @ ''/tenant-'' @ fmt_d (ConfigTenantID cfg) @ ''/'' @ TableName cfg @
             ''/tenant-'' @ fmt_d (ConfigTenantID cfg) @ ''.'' @ TableName cfg @ ''.hash-'' @
             StartHex seg @ ''-'' @ EndHex seg @ ''.csv''"
  by (auto simp: ExportSegment_def Let_def segment_s3Key_def segment_filename_def
      split: prod.splits sum.splits option.splits if_splits)

theorem ExportSegment_s3Key_format_witness:
  "returned (ExportSegment example_cfg example_db example_s3 example_seg) =
     Inr (Some \<lparr>FilePath = '''', S3Key = ''p/tenant-7/fis_aggr/tenant-7.fis_aggr.hash-00-40.csv'',
                CSVSegment = example_seg, RowCount = 3\<rparr>) \<and>
   ''p/tenant-7/fis_aggr/tenant-7.fis_aggr.hash-00-40.csv'' =
     S3Prefix example_cfg @ ''/tenant-'' @ fmt_d (ConfigTenantID example_cfg) @ ''/'' @
     TableName example_cfg @ ''/tenant-'' @ fmt_d (ConfigTenantID example_cfg) @ ''.'' @
     TableName example_cfg @ ''.hash-'' @ StartHex example_seg @ ''-'' @ EndHex example_seg @ ''.csv''"
  using ExportSegment_s3Key_format [OF example_export] example_export by simp

text \<open>
  Claim C6, as stated, fails: for tenant 7, table \<^verbatim>\<open>fis_aggr\<close>, prefix \<^verbatim>\<open>p\<close> and the
  segment from \<^verbatim>\<open>00\<close> to \<^verbatim>\<open>40\<close> the exported key is not the key of the stated format.
\<close>

theorem ExportSegment_s3Key_counterexample:
  "returned (ExportSegment example_cfg example_db example_s3 example_seg) =
     Inr (Some \<lparr>FilePath = '''', S3Key = ''p/tenant-7/fis_aggr/tenant-7.fis_aggr.hash-00-40.csv'',
                CSVSegment = example_seg, RowCount = 3\<rparr>) \<and>
   spec_remote_key (S3Prefix example_cfg) (ConfigTenantID example_cfg) (TableName example_cfg)
     (StartHex example_seg) (EndHex example_seg) ''csv'' = ''p/tenant-7/fis_aggr/fis_aggr.hash-00-40.csv'' \<and>
   ''p/tenant-7/fis_aggr/tenant-7.fis_aggr.hash-00-40.csv'' \<noteq> ''p/tenant-7/fis_aggr/fis_aggr.hash-00-40.csv''"
proof -
  have "spec_remote_key (S3Prefix example_cfg) (ConfigTenantID example_cfg) (TableName example_cfg)
     (StartHex example_seg) (EndHex example_seg) ''csv'' = ''p/tenant-7/fis_aggr/fis_aggr.hash-00-40.csv''"
    by code_simp
  then show ?thesis using example_export by simp
qed

section \<open>Segment membership\<close>

lemma SegmentToHexRange_agrees:
  assumes "SegmentHashSpace n = Inr segs" "0 \<le> i" "i < n"
  shows "SegmentToHexRange i n = Inr (StartHex (segs ! nat i), EndHex (segs ! nat i))"
proof -
  have n: "0 < n" "n \<le> 256" using assms(1) by (auto simp: SegmentHashSpace_def split: if_splits)
  have "segs = map (seg_at n) [0..<nat n]" using SegmentHashSpace_valid [OF n] assms(1) by simp
  then have "length segs = nat n" by simp
  then show ?thesis using assms by (simp add: SegmentToHexRange_def)
qed

lemma HashInSegment_not_sentinel:
  "EndHex seg \<noteq> ''100'' \<Longrightarrow> HashInSegment hash seg = spec_member hash (StartHex seg) (EndHex seg)"
  by (auto simp: HashInSegment_def spec_member_def Let_def)

text \<open>
  Claim C2 at the input where the code departs from it. With one segment, the boundaries
  of segment 0 are \<^verbatim>\<open>00\<close> and the sentinel \<^verbatim>\<open>100\<close>, from \<^verbatim>\<open>SegmentHashSpace\<close> and from
  \<^verbatim>\<open>SegmentToHexRange\<close> alike; the key \<^verbatim>\<open>ffabc123def456\<close> belongs to that segment, which
  covers every prefix, and \<^verbatim>\<open>HashInSegment\<close> answers that it does not.
\<close>

theorem HashInSegment_sentinel:
  "SegmentHashSpace 1 = Inr [\<lparr>Index = 0, StartHex = ''00'', EndHex = ''100''\<rparr>] \<and>
   SegmentToHexRange 0 1 = Inr (''00'', ''100'') \<and>
   HashInSegment ''ffabc123def456'' \<lparr>Index = 0, StartHex = ''00'', EndHex = ''100''\<rparr> = False \<and>
   spec_member ''ffabc123def456'' ''00'' ''100'' = True"
proof -
  have a: "SegmentHashSpace 1 = Inr [\<lparr>Index = 0, StartHex = ''00'', EndHex = ''100''\<rparr>]"
    by code_simp
  have b: "SegmentToHexRange 0 1 = Inr (''00'', ''100'')"
    by (simp add: SegmentToHexRange_def a)
  show ?thesis using a b by (simp add: HashInSegment_def spec_member_def)
qed

section \<open>Failures during an export\<close>

text \<open>
  Claim C5 at an input where the code departs from it. The second query of the export
  fails: the error is returned and the transaction is rolled back, but no abort request
  is ever sent, and the session stays open at the service with the first part in it.
\<close>

theorem ExportSegment_query_error_leaves_session:
  "returned (ExportSegment example_cfg failing_db example_s3 example_seg) =
     Inl ''failed to query segment: query failed: timeout'' \<and>
   transaction (ExportSegment example_cfg failing_db example_s3 example_seg) = RolledBack \<and>
   s3_abort_requests (store (ExportSegment example_cfg failing_db example_s3 example_seg)) = 0 \<and>
   s3_state (store (ExportSegment example_cfg failing_db example_s3 example_seg)) = Open \<and>
   map fst (s3_staged (store (ExportSegment example_cfg failing_db example_s3 example_seg))) = [1]"
  by code_simp

section \<open>The multipart upload stream\<close>

lemma UploadPart_empty: "UploadPart m [] s = (None, m, s)"
  by (simp add: UploadPart_def)

lemma upload_attempts_effect:
  "upload_attempts n d a s = (r, s') \<Longrightarrow>
   s3_state s' = s3_state s \<and> s3_object s' = s3_object s \<and>
   s3_abort_requests s' = s3_abort_requests s \<and> s3_faults s' = s3_faults s \<and>
   (case r of
      Inr etag \<Rightarrow> etag = d \<and> s3_state s = Open \<and> 1 \<le> n \<and> n \<le> 10000 \<and>
                  s3_staged s' = filter (\<lambda>p. fst p \<noteq> n) (s3_staged s) @ [(n, d)]
    | Inl e \<Rightarrow> s3_staged s' = s3_staged s)"
proof (induction n d a s arbitrary: r s' rule: upload_attempts.induct)
  case (1 n data attempt s)
  show ?case
  proof (cases "svc_UploadPart n data s")
    case (Pair res s1)
    show ?thesis
    proof (cases res)
      case (Inr etag)
      then have "r = Inr etag" "s' = s1"
        using "1.prems" Pair by (simp_all add: upload_attempts.simps)
      then show ?thesis using Pair Inr
        by (auto simp: svc_UploadPart_def next_request_def split: option.splits if_splits)
    next
      case (Inl e)
      have s1: "s3_state s1 = s3_state s \<and> s3_object s1 = s3_object s \<and>
                s3_abort_requests s1 = s3_abort_requests s \<and> s3_faults s1 = s3_faults s \<and>
                s3_staged s1 = s3_staged s"
        using Pair Inl
        by (auto simp: svc_UploadPart_def next_request_def split: option.splits if_splits)
      show ?thesis
      proof (cases "attempt < maxS3Retries")
        case True
        have rec: "upload_attempts n data (attempt + 1) (sleep (initialRetryDelay * attempt) s1) = (r, s')"
          using "1.prems" Pair Inl True by (simp add: upload_attempts.simps)
        show ?thesis
          using "1.IH" [OF Pair [symmetric] Inl True rec] s1
          by (auto simp: sleep_def split: sum.splits)
      next
        case False
        then have "r = Inl e" "s' = s1"
          using "1.prems" Pair Inl by (simp_all add: upload_attempts.simps)
        then show ?thesis using s1 by simp
      qed
    qed
  qed
qed

end
